theory Spec2Isabelle
  imports Main
begin

section \<open>Python values and errors\<close>

text \<open>
  The values that travel between \<^verbatim>\<open>app/repositories/map_requests.py\<close> and the database
  handle: \<^verbatim>\<open>None\<close>, integers (Python's \<^verbatim>\<open>bool\<close> is a subclass of \<^verbatim>\<open>int\<close>, so
  \<^verbatim>\<open>True\<close> is the integer 1 and \<^verbatim>\<open>False\<close> the integer 0), strings, lists, and the
  row objects of the driver, whose \<^verbatim>\<open>_mapping\<close> attribute is a dictionary from column
  names to values. A dictionary keeps its insertion order, so it is an association list.
\<close>

datatype py =
    PyNone
  | PyInt int
  | PyStr string
  | PyList "py list"
  | PyRecord "(string \<times> py) list"

type_synonym dict = "(string \<times> py) list"

text \<open>\<^verbatim>\<open>class MapRequest(TypedDict)\<close>: at run time a plain dictionary with the keys
  \<^verbatim>\<open>id, map_id, player_id, datetime, active\<close>.\<close>

type_synonym MapRequest = dict

text \<open>
  \<^verbatim>\<open>ValueError\<close> is the spec's \<^verbatim>\<open>InvalidArgument\<close>, \<^verbatim>\<open>AssertionError\<close> its
  \<^verbatim>\<open>InvariantViolation\<close>, \<^verbatim>\<open>StoreError\<close> any failure raised inside the database handle.
  \<^verbatim>\<open>AttributeError\<close> and \<^verbatim>\<open>KeyError\<close> are what Python raises on an attribute or a key
  that is not there.
\<close>

datatype error = ValueError | AssertionError | AttributeError | KeyError | StoreError

text \<open>\<^verbatim>\<open>_UnsetSentinel\<close> / \<^verbatim>\<open>UNSET\<close>: an argument that was not passed.\<close>

datatype 'a unset = UNSET | Value 'a

definition py_bool :: "bool \<Rightarrow> py" where
  "py_bool b = PyInt (if b then 1 else 0)"

fun py_optional :: "int option \<Rightarrow> py" where
  "py_optional None = PyNone"
| "py_optional (Some i) = PyInt i"

text \<open>Python's \<^verbatim>\<open>a | b\<close> on dictionaries: the keys of \<^verbatim>\<open>a\<close> in their order, with the
  values of \<^verbatim>\<open>b\<close> where it has the key, then the keys only \<^verbatim>\<open>b\<close> has.\<close>

definition dict_or :: "dict \<Rightarrow> dict \<Rightarrow> dict" where
  "dict_or a b =
     map (\<lambda>(k, v). (k, case map_of b k of None \<Rightarrow> v | Some w \<Rightarrow> w)) a
     @ filter (\<lambda>(k, v). map_of a k = None) b"

text \<open>\<^verbatim>\<open>x._mapping\<close>: only a row object has the attribute.\<close>

fun mapping :: "py \<Rightarrow> error + MapRequest" where
  "mapping (PyRecord m) = Inr m"
| "mapping _ = Inl AttributeError"

text \<open>\<^verbatim>\<open>cast(MapRequest, dict(x._mapping)) if x is not None else None\<close>, the return
  expression of \<^verbatim>\<open>fetch_one\<close>, \<^verbatim>\<open>update\<close> and \<^verbatim>\<open>delete\<close>.\<close>

definition mapping_or_None :: "py \<Rightarrow> error + MapRequest option" where
  "mapping_or_None x =
     (if x \<noteq> PyNone
      then (case mapping x of Inl e \<Rightarrow> Inl e | Inr m \<Rightarrow> Inr (Some m))
      else Inr None)"

text \<open>\<^verbatim>\<open>[dict(m._mapping) for m in map_requests]\<close>: the first failure ends the loop.\<close>

fun mappings :: "py list \<Rightarrow> error + MapRequest list" where
  "mappings [] = Inr []"
| "mappings (m # ms) =
     (case mapping m of
        Inl e \<Rightarrow> Inl e
      | Inr d \<Rightarrow> (case mappings ms of Inl e \<Rightarrow> Inl e | Inr ds \<Rightarrow> Inr (d # ds)))"

section \<open>The statements the module writes\<close>

text \<open>
  The SQL text of the module, as syntax trees over the one table \<^verbatim>\<open>map_requests\<close>. A
  named parameter \<^verbatim>\<open>:name\<close> is kept by its name.
\<close>

datatype expr =
    Param string   \<comment> \<open>\<^verbatim>\<open>:name\<close>\<close>
  | Now            \<comment> \<open>\<^verbatim>\<open>NOW()\<close>\<close>

datatype cond =
    Eq string string           \<comment> \<open>\<^verbatim>\<open>col = :name\<close>\<close>
  | EqCoalesce string string   \<comment> \<open>\<^verbatim>\<open>col = COALESCE(:name, col)\<close>\<close>
  | In string string           \<comment> \<open>\<^verbatim>\<open>col IN :name\<close>\<close>

datatype assignment =
    SetCoalesce string string  \<comment> \<open>\<^verbatim>\<open>col = COALESCE(:name, col)\<close> in a SET list\<close>

datatype statement =
    Insert "(string \<times> expr) list"
      \<comment> \<open>\<^verbatim>\<open>INSERT INTO map_requests (cols) VALUES (exprs)\<close>\<close>
  | Select "string list" "cond list"
      \<comment> \<open>\<^verbatim>\<open>SELECT cols FROM map_requests WHERE c AND ...\<close>\<close>
  | SelectCount "cond list"
      \<comment> \<open>\<^verbatim>\<open>SELECT COUNT(*) AS count FROM map_requests WHERE c AND ...\<close>\<close>
  | Update "assignment list" "cond list"
      \<comment> \<open>\<^verbatim>\<open>UPDATE map_requests SET a, ... WHERE c AND ...\<close>\<close>
  | Delete "cond list"
      \<comment> \<open>\<^verbatim>\<open>DELETE FROM map_requests WHERE c AND ...\<close>\<close>

definition READ_PARAMS :: "string list" where
  "READ_PARAMS = [''id'', ''map_id'', ''player_id'', ''datetime'', ''active'']"

fun expr_parameters :: "expr \<Rightarrow> string list" where
  "expr_parameters (Param p) = [p]"
| "expr_parameters Now = []"

fun cond_column :: "cond \<Rightarrow> string" where
  "cond_column (Eq c p) = c"
| "cond_column (EqCoalesce c p) = c"
| "cond_column (In c p) = c"

fun cond_parameter :: "cond \<Rightarrow> string" where
  "cond_parameter (Eq c p) = p"
| "cond_parameter (EqCoalesce c p) = p"
| "cond_parameter (In c p) = p"

fun assignment_column :: "assignment \<Rightarrow> string" where
  "assignment_column (SetCoalesce c p) = c"

fun assignment_parameter :: "assignment \<Rightarrow> string" where
  "assignment_parameter (SetCoalesce c p) = p"

text \<open>The named parameters a statement references, in the order of its text.\<close>

fun named_parameters :: "statement \<Rightarrow> string list" where
  "named_parameters (Insert cvs) = concat (map (\<lambda>cv. expr_parameters (snd cv)) cvs)"
| "named_parameters (Select cols conds) = map cond_parameter conds"
| "named_parameters (SelectCount conds) = map cond_parameter conds"
| "named_parameters (Update sets conds) =
     map assignment_parameter sets @ map cond_parameter conds"
| "named_parameters (Delete conds) = map cond_parameter conds"

text \<open>The columns a statement names.\<close>

fun named_columns :: "statement \<Rightarrow> string list" where
  "named_columns (Insert cvs) = map fst cvs"
| "named_columns (Select cols conds) = cols @ map cond_column conds"
| "named_columns (SelectCount conds) = map cond_column conds"
| "named_columns (Update sets conds) = map assignment_column sets @ map cond_column conds"
| "named_columns (Delete conds) = map cond_column conds"

section \<open>The store\<close>

text \<open>
  Modelled from the spec: the database handle \<^verbatim>\<open>app.state.services.database\<close> and the
  relational store behind it are not part of \<^verbatim>\<open>map_requests.py\<close>. The table follows the
  schema of spec section 6 (and of the comment at the head of the source): five columns,
  none nullable, \<^verbatim>\<open>id\<close> the auto-increment primary key. Integer columns are unbounded
  here; \<^verbatim>\<open>active\<close> is the \<^verbatim>\<open>tinyint(1)\<close> the driver reads back as 0 or 1.
\<close>

record row =
  col_id :: int
  col_map_id :: int
  col_player_id :: int
  col_datetime :: string
  col_active :: int

text \<open>
  Modelled from the spec: the state of the store. \<^verbatim>\<open>map_requests_table\<close> is the table in the
  store's own order, \<^verbatim>\<open>auto_increment\<close> the id the next insert gets, \<^verbatim>\<open>now\<close> what
  \<^verbatim>\<open>NOW()\<close> reads, and \<^verbatim>\<open>statements\<close> every statement the handle has been given, with
  its parameters, oldest first.
\<close>

record database =
  map_requests_table :: "row list"
  auto_increment :: int
  now :: string
  statements :: "(statement \<times> dict) list"

text \<open>Modelled from the spec: the columns of the table (spec section 6).\<close>

definition columns :: "string list" where
  "columns = [''id'', ''map_id'', ''player_id'', ''datetime'', ''active'']"

text \<open>Modelled from the spec: the value a row holds in a column, as the driver hands it
  to Python.\<close>

definition column_value :: "string \<Rightarrow> row \<Rightarrow> py" where
  "column_value c r =
     (if c = ''id'' then PyInt (col_id r)
      else if c = ''map_id'' then PyInt (col_map_id r)
      else if c = ''player_id'' then PyInt (col_player_id r)
      else if c = ''datetime'' then PyStr (col_datetime r)
      else if c = ''active'' then PyInt (col_active r)
      else PyNone)"

text \<open>Modelled from the spec: SQL equality. \<^verbatim>\<open>NULL\<close> equals nothing, itself included;
  the module compares integer columns with integers only.\<close>

fun sql_equal :: "py \<Rightarrow> py \<Rightarrow> bool" where
  "sql_equal (PyInt a) (PyInt b) = (a = b)"
| "sql_equal (PyStr a) (PyStr b) = (a = b)"
| "sql_equal _ _ = False"

text \<open>Modelled from the spec: \<^verbatim>\<open>COALESCE(a, b)\<close> is \<^verbatim>\<open>a\<close> unless \<^verbatim>\<open>a\<close> is
  \<^verbatim>\<open>NULL\<close> (spec section 4.1: null means wildcard).\<close>

definition coalesce :: "py \<Rightarrow> py \<Rightarrow> py" where
  "coalesce a b = (if a = PyNone then b else a)"

text \<open>Modelled from the spec: the value bound to a named parameter.\<close>

definition lookup :: "dict \<Rightarrow> string \<Rightarrow> py" where
  "lookup ps p = (case map_of ps p of None \<Rightarrow> PyNone | Some v \<Rightarrow> v)"

text \<open>Modelled from the spec: whether a row satisfies one condition of a WHERE clause.
  An absent filter is bound to \<^verbatim>\<open>NULL\<close> and compares the column with itself.\<close>

fun matches :: "dict \<Rightarrow> row \<Rightarrow> cond \<Rightarrow> bool" where
  "matches ps r (Eq c p) = sql_equal (column_value c r) (lookup ps p)"
| "matches ps r (EqCoalesce c p) =
     sql_equal (column_value c r) (coalesce (lookup ps p) (column_value c r))"
| "matches ps r (In c p) =
     (case lookup ps p of
        PyList vs \<Rightarrow> list_ex (sql_equal (column_value c r)) vs
      | _ \<Rightarrow> False)"

text \<open>Modelled from the spec: the conditions of a WHERE clause are combined with AND.\<close>

definition where_clause :: "dict \<Rightarrow> cond list \<Rightarrow> row \<Rightarrow> bool" where
  "where_clause ps conds r = list_all (matches ps r) conds"

text \<open>
  Modelled from the spec: what the handle refuses before it touches the table. Spec
  section 6: all statements use named, bound parameters, so a statement that references a
  name its parameters do not bind cannot run; a column the table does not have, and an
  UPDATE whose SET list is empty (spec section 4.1: the degenerate statement that targets
  zero columns), are rejected by the store's parser.
\<close>

definition bound :: "statement \<Rightarrow> dict \<Rightarrow> bool" where
  "bound st ps = list_all (\<lambda>p. p \<in> set (map fst ps)) (named_parameters st)"

text \<open>Modelled from the spec: the statements the store's parser takes.\<close>

fun grammatical :: "statement \<Rightarrow> bool" where
  "grammatical (Update [] conds) = False"
| "grammatical st = list_all (\<lambda>c. c \<in> set columns) (named_columns st)"

text \<open>Modelled from the spec: the statements, with their parameters, the handle runs.\<close>

definition accepts :: "statement \<Rightarrow> dict \<Rightarrow> bool" where
  "accepts st ps = (bound st ps \<and> grammatical st)"

text \<open>Modelled from the spec: the handle records each statement it is given.\<close>

definition received :: "statement \<Rightarrow> dict \<Rightarrow> database \<Rightarrow> database" where
  "received st ps s = s\<lparr>statements := statements s @ [(st, ps)]\<rparr>"

text \<open>Modelled from the spec: the value an INSERT gives a column of the new row. The id
  is the store's, every other column must get a value (no column is nullable).\<close>

definition insert_value :: "(string \<times> expr) list \<Rightarrow> dict \<Rightarrow> database \<Rightarrow> string \<Rightarrow> py" where
  "insert_value cvs ps s c =
     (case map_of cvs c of
        None \<Rightarrow> PyNone
      | Some Now \<Rightarrow> PyStr (now s)
      | Some (Param p) \<Rightarrow> lookup ps p)"

text \<open>Modelled from the spec: the new row, or nothing when a column gets no value of its
  type.\<close>

definition new_row :: "(string \<times> expr) list \<Rightarrow> dict \<Rightarrow> database \<Rightarrow> row option" where
  "new_row cvs ps s =
     (case insert_value cvs ps s ''map_id'' of
        PyInt m \<Rightarrow>
          (case insert_value cvs ps s ''player_id'' of
             PyInt p \<Rightarrow>
               (case insert_value cvs ps s ''datetime'' of
                  PyStr d \<Rightarrow>
                    (case insert_value cvs ps s ''active'' of
                       PyInt a \<Rightarrow>
                         Some \<lparr>col_id = auto_increment s, col_map_id = m, col_player_id = p,
                               col_datetime = d, col_active = a\<rparr>
                     | _ \<Rightarrow> None)
                | _ \<Rightarrow> None)
           | _ \<Rightarrow> None)
      | _ \<Rightarrow> None)"

text \<open>Modelled from the spec: one assignment of a SET list on one row. The primary key
  and the creation time are never assigned (spec section 3: immutable).\<close>

fun assign :: "dict \<Rightarrow> assignment \<Rightarrow> row \<Rightarrow> row option" where
  "assign ps (SetCoalesce c p) r =
     (case coalesce (lookup ps p) (column_value c r) of
        PyInt v \<Rightarrow>
          (if c = ''map_id'' then Some (r\<lparr>col_map_id := v\<rparr>)
           else if c = ''player_id'' then Some (r\<lparr>col_player_id := v\<rparr>)
           else if c = ''active'' then Some (r\<lparr>col_active := v\<rparr>)
           else None)
      | _ \<Rightarrow> None)"

text \<open>Modelled from the spec: the SET list on one row, left to right.\<close>

fun assign_all :: "dict \<Rightarrow> assignment list \<Rightarrow> row \<Rightarrow> row option" where
  "assign_all ps [] r = Some r"
| "assign_all ps (a # as) r =
     (case assign ps a r of None \<Rightarrow> None | Some r' \<Rightarrow> assign_all ps as r')"

text \<open>Modelled from the spec: an UPDATE on the table: the SET list on every row the
  WHERE clause selects, every other row as it was.\<close>

fun update_rows ::
  "dict \<Rightarrow> assignment list \<Rightarrow> cond list \<Rightarrow> row list \<Rightarrow> row list option" where
  "update_rows ps sets conds [] = Some []"
| "update_rows ps sets conds (r # rs) =
     (case (if where_clause ps conds r then assign_all ps sets r else Some r) of
        None \<Rightarrow> None
      | Some r' \<Rightarrow>
          (case update_rows ps sets conds rs of None \<Rightarrow> None | Some rs' \<Rightarrow> Some (r' # rs')))"

text \<open>Modelled from the spec: the number of rows an UPDATE changed.\<close>

fun changed :: "row list \<Rightarrow> row list \<Rightarrow> int" where
  "changed (r # rs) (r' # rs') = (if r = r' then 0 else 1) + changed rs rs'"
| "changed _ _ = 0"

text \<open>
  Modelled from the spec: \<^verbatim>\<open>execute(statement, parameters)\<close> of spec section 6, for
  INSERT, UPDATE and DELETE. It returns an integer, the last inserted id or the number of
  affected rows (\<^verbatim>\<open>create\<close> uses the result as the new row's id), and fails with a
  store error otherwise.
\<close>

definition database_execute :: "statement \<Rightarrow> dict \<Rightarrow> database \<Rightarrow> (error + py) \<times> database" where
  "database_execute st ps s =
     (let s1 = received st ps s in
      if \<not> accepts st ps then (Inl StoreError, s1)
      else
        (case st of
           Insert cvs \<Rightarrow>
             (case new_row cvs ps s1 of
                None \<Rightarrow> (Inl StoreError, s1)
              | Some r \<Rightarrow>
                  if col_id r \<in> set (map col_id (map_requests_table s1)) then (Inl StoreError, s1)
                  else (Inr (PyInt (col_id r)),
                        s1\<lparr>map_requests_table := map_requests_table s1 @ [r],
                           auto_increment := auto_increment s1 + 1\<rparr>))
         | Update sets conds \<Rightarrow>
             (case update_rows ps sets conds (map_requests_table s1) of
                None \<Rightarrow> (Inl StoreError, s1)
              | Some rs \<Rightarrow>
                  (Inr (PyInt (changed (map_requests_table s1) rs)), s1\<lparr>map_requests_table := rs\<rparr>))
         | Delete conds \<Rightarrow>
             (Inr (PyInt (int (length (filter (where_clause ps conds) (map_requests_table s1))))),
              s1\<lparr>map_requests_table := filter (\<lambda>r. \<not> where_clause ps conds r) (map_requests_table s1)\<rparr>)
         | _ \<Rightarrow> (Inl StoreError, s1)))"

text \<open>Modelled from the spec: the row object a query returns for a row of the table:
  its \<^verbatim>\<open>_mapping\<close> holds the selected columns.\<close>

definition record_of :: "string list \<Rightarrow> row \<Rightarrow> py" where
  "record_of cols r = PyRecord (map (\<lambda>c. (c, column_value c r)) cols)"

text \<open>Modelled from the spec: the rows a SELECT yields; a statement that is no query
  yields none.\<close>

definition result_set :: "statement \<Rightarrow> dict \<Rightarrow> database \<Rightarrow> py list option" where
  "result_set st ps s =
     (case st of
        Select cols conds \<Rightarrow>
          Some (map (record_of cols) (filter (where_clause ps conds) (map_requests_table s)))
      | SelectCount conds \<Rightarrow>
          Some [PyRecord
                  [(''count'',
                    PyInt (int (length (filter (where_clause ps conds) (map_requests_table s)))))]]
      | _ \<Rightarrow> None)"

text \<open>Modelled from the spec: \<^verbatim>\<open>fetch_all(statement, parameters)\<close> of spec section 6,
  the ordered sequence of rows.\<close>

definition database_fetch_all ::
  "statement \<Rightarrow> dict \<Rightarrow> database \<Rightarrow> (error + py list) \<times> database" where
  "database_fetch_all st ps s =
     (let s1 = received st ps s in
      if \<not> accepts st ps then (Inl StoreError, s1)
      else (case result_set st ps s1 of
              None \<Rightarrow> (Inl StoreError, s1)
            | Some rs \<Rightarrow> (Inr rs, s1)))"

text \<open>Modelled from the spec: \<^verbatim>\<open>fetch_one(statement, parameters)\<close> of spec section 6,
  the first row in the store's order, or \<^verbatim>\<open>None\<close>.\<close>

definition database_fetch_one ::
  "statement \<Rightarrow> dict \<Rightarrow> database \<Rightarrow> (error + py) \<times> database" where
  "database_fetch_one st ps s =
     (let s1 = received st ps s in
      if \<not> accepts st ps then (Inl StoreError, s1)
      else (case result_set st ps s1 of
              None \<Rightarrow> (Inl StoreError, s1)
            | Some [] \<Rightarrow> (Inr PyNone, s1)
            | Some (r # rs) \<Rightarrow> (Inr r, s1)))"

section \<open>The repository functions\<close>

text \<open>\<^verbatim>\<open>create(map_id, player_id, active)\<close>, source lines 43 to 71.\<close>

definition create :: "int \<Rightarrow> int \<Rightarrow> bool \<Rightarrow> database \<Rightarrow> (error + MapRequest) \<times> database" where
  "create map_id player_id active s =
     (let query = Insert [(''map_id'', Param ''map_id''), (''player_id'', Param ''player_id''),
                          (''datetime'', Now), (''active'', Param ''active'')];
          params = [(''map_id'', PyInt map_id), (''player_id'', PyInt player_id),
                    (''active'', py_bool active)]
      in case database_execute query params s of
           (Inl e, s1) \<Rightarrow> (Inl e, s1)
         | (Inr rec_id, s1) \<Rightarrow>
             (let query = Select READ_PARAMS [Eq ''id'' ''id''];
                  params = [(''id'', rec_id)]
              in case database_fetch_one query params s1 of
                   (Inl e, s2) \<Rightarrow> (Inl e, s2)
                 | (Inr map_request, s2) \<Rightarrow>
                     if map_request = PyNone then (Inl AssertionError, s2)
                     else (mapping map_request, s2)))"

text \<open>\<^verbatim>\<open>fetch_one(id, map_id, player_id, active)\<close>, source lines 74 to 104.\<close>

definition fetch_one ::
  "int option \<Rightarrow> int option \<Rightarrow> int option \<Rightarrow> int option \<Rightarrow> database
     \<Rightarrow> (error + MapRequest option) \<times> database" where
  "fetch_one id' map_id player_id active s =
     (if id' = None \<and> map_id = None \<and> player_id = None \<and> active = None
      then (Inl ValueError, s)
      else
        (let query = Select READ_PARAMS
                       [EqCoalesce ''id'' ''id'', EqCoalesce ''map_id'' ''map_id'',
                        EqCoalesce ''player_id'' ''player_id'', EqCoalesce ''active'' ''active''];
             params = [(''id'', py_optional id'), (''map_id'', py_optional map_id),
                       (''player_id'', py_optional player_id), (''active'', py_optional active)]
         in case database_fetch_one query params s of
              (Inl e, s1) \<Rightarrow> (Inl e, s1)
            | (Inr map_request, s1) \<Rightarrow> (mapping_or_None map_request, s1)))"

text \<open>\<^verbatim>\<open>fetch_count(map_id, player_id, active)\<close>, source lines 107 to 128.\<close>

definition fetch_count ::
  "int option \<Rightarrow> int option \<Rightarrow> int option \<Rightarrow> database \<Rightarrow> (error + py) \<times> database" where
  "fetch_count map_id player_id active s =
     (let query = SelectCount
                    [EqCoalesce ''map_id'' ''map_id'', EqCoalesce ''player_id'' ''player_id'',
                     EqCoalesce ''active'' ''active''];
          params = [(''map_id'', py_optional map_id), (''player_id'', py_optional player_id),
                    (''active'', py_optional active)]
      in case database_fetch_one query params s of
           (Inl e, s1) \<Rightarrow> (Inl e, s1)
         | (Inr rec, s1) \<Rightarrow>
             if rec = PyNone then (Inl AssertionError, s1)
             else (case mapping rec of
                     Inl e \<Rightarrow> (Inl e, s1)
                   | Inr m \<Rightarrow>
                       (case map_of m ''count'' of
                          None \<Rightarrow> (Inl KeyError, s1)
                        | Some n \<Rightarrow> (Inr n, s1))))"

text \<open>\<^verbatim>\<open>fetch_all(map_id, player_id, active)\<close>, source lines 131 to 151.\<close>

definition fetch_all ::
  "int option \<Rightarrow> int option \<Rightarrow> int option \<Rightarrow> database
     \<Rightarrow> (error + MapRequest list) \<times> database" where
  "fetch_all map_id player_id active s =
     (let query = Select READ_PARAMS
                    [EqCoalesce ''map_id'' ''map_id'', EqCoalesce ''player_id'' ''player_id'',
                     EqCoalesce ''active'' ''active''];
          params = [(''map_id'', py_optional map_id), (''player_id'', py_optional player_id),
                    (''active'', py_optional active)]
      in case database_fetch_all query params s of
           (Inl e, s1) \<Rightarrow> (Inl e, s1)
         | (Inr map_requests, s1) \<Rightarrow> (mappings map_requests, s1))"

text \<open>\<^verbatim>\<open>update(map_ids, player_id, active)\<close>, source lines 154 to 187. The map ids are
  the integers of column \<^verbatim>\<open>map_id\<close>. The SET list has one entry
  \<^verbatim>\<open>k = COALESCE(:k, k)\<close> for each key of \<^verbatim>\<open>update_fields\<close>, in its order.\<close>

definition update ::
  "int list \<Rightarrow> int unset \<Rightarrow> bool unset \<Rightarrow> database \<Rightarrow> (error + MapRequest option) \<times> database" where
  "update map_ids player_id active s =
     (let update_fields =
            (case player_id of UNSET \<Rightarrow> [] | Value v \<Rightarrow> [(''player_id'', PyInt v)])
            @ (case active of UNSET \<Rightarrow> [] | Value v \<Rightarrow> [(''active'', py_bool v)]);
          query = Update (map (\<lambda>k. SetCoalesce k k) (map fst update_fields))
                         [In ''map_id'' ''map_ids''];
          params = dict_or [(''map_id'', PyList (map PyInt map_ids))] update_fields
      in case database_execute query params s of
           (Inl e, s1) \<Rightarrow> (Inl e, s1)
         | (Inr affected, s1) \<Rightarrow>
             (let query = Select READ_PARAMS [In ''map_id'' ''map_ids''];
                  params = [(''map_ids'', PyList (map PyInt map_ids))]
              in case database_fetch_one query params s1 of
                   (Inl e, s2) \<Rightarrow> (Inl e, s2)
                 | (Inr map_request, s2) \<Rightarrow> (mapping_or_None map_request, s2)))"

text \<open>\<^verbatim>\<open>delete(id)\<close>, source lines 190 to 216. The value returned is built from
  \<^verbatim>\<open>map_request\<close>, the result of \<^verbatim>\<open>execute\<close>; \<^verbatim>\<open>rec\<close> is only tested for
  \<^verbatim>\<open>None\<close>.\<close>

definition delete :: "int \<Rightarrow> database \<Rightarrow> (error + MapRequest option) \<times> database" where
  "delete id' s =
     (let query = Select READ_PARAMS [Eq ''id'' ''id''];
          params = [(''id'', PyInt id')]
      in case database_fetch_one query params s of
           (Inl e, s1) \<Rightarrow> (Inl e, s1)
         | (Inr rec, s1) \<Rightarrow>
             if rec = PyNone then (Inr None, s1)
             else
               (let query = Delete [Eq ''id'' ''id''];
                    params = [(''id'', PyInt id')]
                in case database_execute query params s1 of
                     (Inl e, s2) \<Rightarrow> (Inl e, s2)
                   | (Inr map_request, s2) \<Rightarrow> (mapping_or_None map_request, s2)))"

section \<open>Example stores and auxiliary notions\<close>

text \<open>An empty table, and a table of two requests for different maps.\<close>

definition db_empty :: database where
  "db_empty =
     \<lparr>map_requests_table = [], auto_increment = 1, now = ''2024-01-01 00:00:00'',
      statements = []\<rparr>"

definition db_two_rows :: database where
  "db_two_rows =
     \<lparr>map_requests_table =
        [\<lparr>col_id = 1, col_map_id = 10, col_player_id = 3,
          col_datetime = ''2024-01-01 00:00:00'', col_active = 0\<rparr>,
         \<lparr>col_id = 2, col_map_id = 20, col_player_id = 4,
          col_datetime = ''2024-01-02 00:00:00'', col_active = 1\<rparr>],
      auto_increment = 3, now = ''2024-01-03 00:00:00'', statements = []\<rparr>"

text \<open>The record \<^verbatim>\<open>create(7, 3, True)\<close> returns on the empty table.\<close>

definition created :: MapRequest where
  "created =
     [(''id'', PyInt 1), (''map_id'', PyInt 7), (''player_id'', PyInt 3),
      (''datetime'', PyStr ''2024-01-01 00:00:00''), (''active'', PyInt 1)]"

text \<open>An optional filter on an integer column: absent, it lets every value pass.\<close>

fun wildcard :: "int option \<Rightarrow> int \<Rightarrow> bool" where
  "wildcard None v = True"
| "wildcard (Some x) v = (v = x)"

text \<open>The dictionary a SELECT of \<^verbatim>\<open>READ_PARAMS\<close> yields for a row of the table.\<close>

definition as_MapRequest :: "row \<Rightarrow> MapRequest" where
  "as_MapRequest r = map (\<lambda>c. (c, column_value c r)) READ_PARAMS"

text \<open>The records a call of \<^verbatim>\<open>fetch_all\<close> returned, as a set (empty when it failed).\<close>

definition found :: "(error + MapRequest list) \<times> database \<Rightarrow> MapRequest set" where
  "found res = (case fst res of Inl e \<Rightarrow> {} | Inr ms \<Rightarrow> set ms)"

section \<open>Reading and deleting by id\<close>

lemma accepts_select_by_id: "accepts (Select READ_PARAMS [Eq ''id'' ''id'']) [(''id'', v)]"
  by (simp add: accepts_def bound_def READ_PARAMS_def columns_def)

lemma accepts_delete_by_id: "accepts (Delete [Eq ''id'' ''id'']) [(''id'', v)]"
  by (simp add: accepts_def bound_def columns_def)

lemma where_by_id:
  "where_clause [(''id'', PyInt i)] [Eq ''id'' ''id''] = (\<lambda>r. col_id r = i)"
  by (rule ext) (simp add: where_clause_def column_value_def lookup_def)

lemma record_not_None: "record_of cols r \<noteq> PyNone"
  by (simp add: record_of_def)

lemma fetch_one_by_id:
  "database_fetch_one (Select READ_PARAMS [Eq ''id'' ''id'']) [(''id'', PyInt i)] s =
     ((case filter (\<lambda>r. col_id r = i) (map_requests_table s) of
         [] \<Rightarrow> Inr PyNone
       | r # rs \<Rightarrow> Inr (record_of READ_PARAMS r)),
      received (Select READ_PARAMS [Eq ''id'' ''id'']) [(''id'', PyInt i)] s)"
  by (simp add: database_fetch_one_def accepts_select_by_id result_set_def where_by_id
      received_def Let_def split: list.split)

text \<open>On a row that exists, \<^verbatim>\<open>delete\<close> removes it and then fails: the integer that
  \<^verbatim>\<open>execute\<close> returned is not \<^verbatim>\<open>None\<close> and has no \<^verbatim>\<open>_mapping\<close>.\<close>

lemma delete_present:
  assumes "id' \<in> set (map col_id (map_requests_table s))"
  shows "fst (delete id' s) = Inl AttributeError
    \<and> map_requests_table (snd (delete id' s))
        = filter (\<lambda>r. col_id r \<noteq> id') (map_requests_table s)"
proof -
  obtain r rs where "filter (\<lambda>r. col_id r = id') (map_requests_table s) = r # rs"
    using assms
    by (cases "filter (\<lambda>r. col_id r = id') (map_requests_table s)")
       (auto simp: filter_empty_conv)
  then show ?thesis
    by (simp add: delete_def fetch_one_by_id record_not_None database_execute_def
        accepts_delete_by_id received_def where_by_id mapping_or_None_def Let_def)
qed

text \<open>
  Claim C1. On the store of two rows, \<^verbatim>\<open>delete(1)\<close> removes row 1 and then fails
  with \<^verbatim>\<open>AttributeError\<close>: no snapshot is returned, because the value is built from the
  result of the DELETE statement and not from the row read before.
\<close>

theorem delete_existing_id_raises:
  "fst (delete 1 db_two_rows) = Inl AttributeError
   \<and> map col_id (map_requests_table (snd (delete 1 db_two_rows))) = [2]"
  by (simp add: delete_present db_two_rows_def)

text \<open>
  Claim C8. When no row has the given id, \<^verbatim>\<open>delete\<close> returns \<^verbatim>\<open>None\<close>; the store
  it leaves differs from the one it found only by the one SELECT of the initial read in the
  list of statements received, so no DELETE was issued and the table is unchanged.
\<close>

theorem delete_absent_id:
  assumes "id' \<notin> set (map col_id (map_requests_table s))"
  shows "delete id' s =
     (Inr None,
      s\<lparr>statements :=
           statements s @ [(Select READ_PARAMS [Eq ''id'' ''id''], [(''id'', PyInt id')])]\<rparr>)"
proof -
  have "filter (\<lambda>r. col_id r = id') (map_requests_table s) = []"
    using assms by (auto simp: filter_empty_conv)
  then show ?thesis
    by (simp add: delete_def fetch_one_by_id received_def)
qed

theorem delete_absent_id_witness:
  "5 \<notin> set (map col_id (map_requests_table db_two_rows))
   \<and> delete 5 db_two_rows =
     (Inr None,
      db_two_rows\<lparr>statements :=
           statements db_two_rows
           @ [(Select READ_PARAMS [Eq ''id'' ''id''], [(''id'', PyInt 5)])]\<rparr>)"
proof -
  have absent: "5 \<notin> set (map col_id (map_requests_table db_two_rows))"
    by (simp add: db_two_rows_def)
  show ?thesis
    using absent delete_absent_id [OF absent] by simp
qed

text \<open>
  Claim C7. The round trip on the empty table: \<^verbatim>\<open>create(7, 3, True)\<close> returns the new
  record, \<^verbatim>\<open>fetch_one(id=1)\<close> returns the same record, \<^verbatim>\<open>delete(1)\<close> removes the row
  but fails with \<^verbatim>\<open>AttributeError\<close> where the record was to be returned a third time,
  and \<^verbatim>\<open>fetch_one(id=1)\<close> then finds nothing.
\<close>

theorem round_trip_delete_raises:
  "(let (r1, s1) = create 7 3 True db_empty;
        (r2, s2) = fetch_one (Some 1) None None None s1;
        (r3, s3) = delete 1 s2;
        (r4, s4) = fetch_one (Some 1) None None None s3
    in r1 = Inr created \<and> r2 = Inr (Some created) \<and> r3 = Inl AttributeError \<and> r4 = Inr None
       \<and> map_requests_table s2 =
           [\<lparr>col_id = 1, col_map_id = 7, col_player_id = 3,
             col_datetime = ''2024-01-01 00:00:00'', col_active = 1\<rparr>]
       \<and> map_requests_table s3 = [])"
  by code_simp

section \<open>The guard of fetch_one\<close>

text \<open>
  Claim C4. A call of \<^verbatim>\<open>fetch_one\<close> with all four filters absent fails with
  \<^verbatim>\<open>ValueError\<close> (the spec's InvalidArgument) and hands back the store exactly as it
  was: no statement has been given to the handle, no row has been read.
\<close>

theorem fetch_one_without_filters_fails:
  "fetch_one None None None None s = (Inl ValueError, s)"
  by (simp add: fetch_one_def)

section \<open>Optional filters\<close>

lemma where_filters:
  "where_clause
     [(''map_id'', py_optional m), (''player_id'', py_optional p), (''active'', py_optional a)]
     [EqCoalesce ''map_id'' ''map_id'', EqCoalesce ''player_id'' ''player_id'',
      EqCoalesce ''active'' ''active'']
   = (\<lambda>r. wildcard m (col_map_id r) \<and> wildcard p (col_player_id r)
           \<and> wildcard a (col_active r))"
  by (rule ext, cases m; cases p; cases a)
     (auto simp add: where_clause_def column_value_def lookup_def coalesce_def)

lemma accepts_select_filters:
  "accepts (Select READ_PARAMS
     [EqCoalesce ''map_id'' ''map_id'', EqCoalesce ''player_id'' ''player_id'',
      EqCoalesce ''active'' ''active''])
     [(''map_id'', u), (''player_id'', v), (''active'', w)]"
  by (simp add: accepts_def bound_def READ_PARAMS_def columns_def)

lemma accepts_count_filters:
  "accepts (SelectCount
     [EqCoalesce ''map_id'' ''map_id'', EqCoalesce ''player_id'' ''player_id'',
      EqCoalesce ''active'' ''active''])
     [(''map_id'', u), (''player_id'', v), (''active'', w)]"
  by (simp add: accepts_def bound_def columns_def)

lemma mappings_records:
  "mappings (map (record_of READ_PARAMS) rs) = Inr (map as_MapRequest rs)"
  by (induction rs) (simp_all add: record_of_def as_MapRequest_def)

lemma fetch_all_rows:
  "fst (fetch_all m p a s) =
     Inr (map as_MapRequest
            (filter (\<lambda>r. wildcard m (col_map_id r) \<and> wildcard p (col_player_id r)
                          \<and> wildcard a (col_active r))
               (map_requests_table s)))"
  by (simp add: fetch_all_def database_fetch_all_def accepts_select_filters result_set_def
      where_filters received_def mappings_records Let_def)

lemma found_fetch_all:
  "found (fetch_all m p a s) =
     as_MapRequest ` {r \<in> set (map_requests_table s).
        wildcard m (col_map_id r) \<and> wildcard p (col_player_id r)
        \<and> wildcard a (col_active r)}"
  by (simp add: found_def fetch_all_rows)

text \<open>
  Claim C9. \<^verbatim>\<open>fetch_count\<close> with all three filters absent does not fail with
  \<^verbatim>\<open>ValueError\<close>: it returns the number of rows of the table, and leaves the table as
  it was.
\<close>

theorem fetch_count_without_filters:
  "fst (fetch_count None None None s) = Inr (PyInt (int (length (map_requests_table s))))
   \<and> fst (fetch_count None None None s) \<noteq> Inl ValueError
   \<and> map_requests_table (snd (fetch_count None None None s)) = map_requests_table s"
  using where_filters [of None None None] accepts_count_filters [of PyNone PyNone PyNone]
  by (simp add: fetch_count_def database_fetch_one_def result_set_def received_def Let_def)

text \<open>
  Claim C10. \<^verbatim>\<open>fetch_all(map_id=X)\<close> returns the records of exactly the rows whose
  \<^verbatim>\<open>map_id\<close> is \<^verbatim>\<open>X\<close>, whatever their other columns hold; and for any filters, the
  records found are among those found when one of the filters is left out.
\<close>

theorem fetch_all_by_map_id:
  "fst (fetch_all (Some X) None None s) =
     Inr (map as_MapRequest (filter (\<lambda>r. col_map_id r = X) (map_requests_table s)))
   \<and> found (fetch_all map_id player_id active s) \<subseteq> found (fetch_all None player_id active s)
   \<and> found (fetch_all map_id player_id active s) \<subseteq> found (fetch_all map_id None active s)
   \<and> found (fetch_all map_id player_id active s) \<subseteq> found (fetch_all map_id player_id None s)"
proof -
  have exact: "fst (fetch_all (Some X) None None s) =
     Inr (map as_MapRequest (filter (\<lambda>r. col_map_id r = X) (map_requests_table s)))"
    by (simp add: fetch_all_rows)
  have "found (fetch_all map_id player_id active s)
      \<subseteq> found (fetch_all None player_id active s)"
    by (auto simp: found_fetch_all)
  moreover have "found (fetch_all map_id player_id active s)
      \<subseteq> found (fetch_all map_id None active s)"
    by (auto simp: found_fetch_all)
  moreover have "found (fetch_all map_id player_id active s)
      \<subseteq> found (fetch_all map_id player_id None s)"
    by (auto simp: found_fetch_all)
  ultimately show ?thesis using exact by blast
qed

section \<open>The statement update gives the store\<close>

text \<open>The UPDATE statement names \<^verbatim>\<open>:map_ids\<close>; the dictionary passed with it has the
  key \<^verbatim>\<open>map_id\<close> and the keys of \<^verbatim>\<open>update_fields\<close>, so the name is never bound.\<close>

lemma update_unbound:
  "\<not> bound (Update sets [In ''map_id'' ''map_ids''])
       (dict_or [(''map_id'', v)]
          ((case player_id of UNSET \<Rightarrow> [] | Value x \<Rightarrow> [(''player_id'', PyInt x)])
           @ (case active of UNSET \<Rightarrow> [] | Value x \<Rightarrow> [(''active'', py_bool x)])))"
  by (cases player_id; cases active) (simp_all add: bound_def dict_or_def)

lemma update_fails:
  "update map_ids player_id active s =
     (Inl StoreError,
      received
        (Update (map (\<lambda>k. SetCoalesce k k)
                   (map fst
                      ((case player_id of UNSET \<Rightarrow> [] | Value x \<Rightarrow> [(''player_id'', PyInt x)])
                       @ (case active of UNSET \<Rightarrow> [] | Value x \<Rightarrow> [(''active'', py_bool x)]))))
           [In ''map_id'' ''map_ids''])
        (dict_or [(''map_id'', PyList (map PyInt map_ids))]
           ((case player_id of UNSET \<Rightarrow> [] | Value x \<Rightarrow> [(''player_id'', PyInt x)])
            @ (case active of UNSET \<Rightarrow> [] | Value x \<Rightarrow> [(''active'', py_bool x)])))
        s)"
  by (simp add: update_def database_execute_def accepts_def update_unbound Let_def)

text \<open>With the list bound to the name the statement references, the store runs the same
  UPDATE: on the store of two rows both rows end active.\<close>

lemma update_statement_bound_example:
  "database_execute
     (Update [SetCoalesce ''active'' ''active''] [In ''map_id'' ''map_ids''])
     [(''map_ids'', PyList [PyInt 10, PyInt 20]), (''active'', PyInt 1)] db_two_rows
   = (Inr (PyInt 1),
      db_two_rows
        \<lparr>map_requests_table :=
           [\<lparr>col_id = 1, col_map_id = 10, col_player_id = 3,
             col_datetime = ''2024-01-01 00:00:00'', col_active = 1\<rparr>,
            \<lparr>col_id = 2, col_map_id = 20, col_player_id = 4,
             col_datetime = ''2024-01-02 00:00:00'', col_active = 1\<rparr>],
         statements :=
           [(Update [SetCoalesce ''active'' ''active''] [In ''map_id'' ''map_ids''],
             [(''map_ids'', PyList [PyInt 10, PyInt 20]), (''active'', PyInt 1)])]\<rparr>)"
  by code_simp

text \<open>
  Claim C3. When \<^verbatim>\<open>player_id\<close> or \<^verbatim>\<open>active\<close> is given, \<^verbatim>\<open>update\<close> hands the store
  one statement, a grammatical UPDATE that references the named parameter \<^verbatim>\<open>map_ids\<close>,
  with a dictionary that holds the list under the key \<^verbatim>\<open>map_id\<close> and has no key
  \<^verbatim>\<open>map_ids\<close>, so that the statement is not bound; the call fails with a store error
  and the table is unchanged.
\<close>

theorem update_statement_parameter_mismatch:
  assumes "player_id \<noteq> UNSET \<or> active \<noteq> UNSET"
  shows "\<exists>sets ps.
      statements (snd (update map_ids player_id active s))
        = statements s @ [(Update sets [In ''map_id'' ''map_ids''], ps)]
    \<and> grammatical (Update sets [In ''map_id'' ''map_ids''])
    \<and> ''map_ids'' \<in> set (named_parameters (Update sets [In ''map_id'' ''map_ids'']))
    \<and> \<not> bound (Update sets [In ''map_id'' ''map_ids'']) ps
    \<and> map_of ps ''map_id'' = Some (PyList (map PyInt map_ids))
    \<and> map_of ps ''map_ids'' = None
    \<and> fst (update map_ids player_id active s) = Inl StoreError
    \<and> map_requests_table (snd (update map_ids player_id active s)) = map_requests_table s"
  using assms
  by (cases player_id; cases active)
     (simp_all add: update_fails received_def dict_or_def bound_def columns_def)

theorem update_statement_parameter_mismatch_witness:
  "Value True \<noteq> (UNSET :: bool unset)
   \<and> fst (update [10, 20] UNSET (Value True) db_two_rows) = Inl StoreError
   \<and> map_requests_table (snd (update [10, 20] UNSET (Value True) db_two_rows))
       = map_requests_table db_two_rows"
  using update_statement_parameter_mismatch [of UNSET "Value True" "[10, 20]" db_two_rows]
  by auto

text \<open>
  Claim C2. On the store of two rows, one for map 10 and inactive, one for map 20,
  \<^verbatim>\<open>update([10, 20], active=True)\<close> fails with a store error and row 1 is still
  inactive: \<^verbatim>\<open>active\<close> has not been set on every row of the two maps.
\<close>

theorem update_two_map_ids_fails:
  "fst (update [10, 20] UNSET (Value True) db_two_rows) = Inl StoreError
   \<and> map col_map_id (map_requests_table db_two_rows) = [10, 20]
   \<and> map col_active
        (map_requests_table (snd (update [10, 20] UNSET (Value True) db_two_rows))) = [0, 1]"
  by code_simp

section \<open>Update without fields\<close>

lemma empty_set_list_rejected: "\<not> accepts (Update [] conds) ps"
  by (simp add: accepts_def)

text \<open>
  Claim C6, as stated, fails: on the store of two rows \<^verbatim>\<open>update([10])\<close> with neither
  field given sends the store an UPDATE with an empty SET list and fails with a store
  error, which is neither \<^verbatim>\<open>ValueError\<close> nor a normal return.
\<close>

theorem update_without_fields_example:
  "fst (update [10] UNSET UNSET db_two_rows) = Inl StoreError
   \<and> fst (update [10] UNSET UNSET db_two_rows) \<noteq> Inl ValueError
   \<and> statements (snd (update [10] UNSET UNSET db_two_rows))
       = [(Update [] [In ''map_id'' ''map_ids''], [(''map_id'', PyList [PyInt 10])])]"
  by code_simp

text \<open>
  Claim C6, amended. \<^verbatim>\<open>update\<close> has no guard for the case that neither field is
  given: it hands the store an UPDATE statement with an empty SET list, the store rejects
  it, and the call fails with a store error; the store it leaves differs from the one it
  found only by that statement in the list of statements received, so every row is
  unchanged.
\<close>

theorem update_without_fields_store_error:
  "update map_ids UNSET UNSET s =
     (Inl StoreError,
      s\<lparr>statements :=
           statements s
           @ [(Update [] [In ''map_id'' ''map_ids''],
               [(''map_id'', PyList (map PyInt map_ids))])]\<rparr>)"
  by (simp add: update_def database_execute_def empty_set_list_rejected received_def
      dict_or_def Let_def)

section \<open>Update and the column map_id\<close>

text \<open>An UPDATE whose SET list does not name \<^verbatim>\<open>map_id\<close> leaves that column alone,
  whether the store runs it or rejects it.\<close>

lemma assign_keeps_map_id:
  assumes "assignment_column a \<noteq> ''map_id''" and "assign ps a r = Some r'"
  shows "col_map_id r' = col_map_id r"
  using assms by (cases a) (auto split: py.splits if_splits)

lemma assign_all_keeps_map_id:
  assumes "''map_id'' \<notin> set (map assignment_column sets)"
    and "assign_all ps sets r = Some r'"
  shows "col_map_id r' = col_map_id r"
  using assms
proof (induction sets arbitrary: r)
  case Nil
  then show ?case by simp
next
  case (Cons a sets)
  from Cons.prems(2) obtain r1 where step: "assign ps a r = Some r1"
    and rest: "assign_all ps sets r1 = Some r'"
    by (auto split: option.splits)
  from Cons.prems(1) have here: "assignment_column a \<noteq> ''map_id''"
    and later: "''map_id'' \<notin> set (map assignment_column sets)"
    by auto
  have "col_map_id r1 = col_map_id r"
    using here step by (rule assign_keeps_map_id)
  moreover have "col_map_id r' = col_map_id r1"
    using later rest by (rule Cons.IH)
  ultimately show ?case by simp
qed

lemma update_rows_keeps_map_id:
  assumes "''map_id'' \<notin> set (map assignment_column sets)"
    and "update_rows ps sets conds rs = Some rs'"
  shows "map col_map_id rs' = map col_map_id rs"
  using assms(2)
proof (induction rs arbitrary: rs')
  case Nil
  then show ?case by simp
next
  case (Cons r rs)
  from Cons.prems obtain r1 rs1
    where head: "(if where_clause ps conds r then assign_all ps sets r else Some r) = Some r1"
      and tail: "update_rows ps sets conds rs = Some rs1"
      and whole: "rs' = r1 # rs1"
    by (auto split: option.splits)
  have "col_map_id r1 = col_map_id r"
  proof (cases "where_clause ps conds r")
    case True
    with head have "assign_all ps sets r = Some r1" by simp
    with assms(1) show ?thesis by (rule assign_all_keeps_map_id)
  next
    case False
    with head show ?thesis by simp
  qed
  moreover have "map col_map_id rs1 = map col_map_id rs"
    using tail by (rule Cons.IH)
  ultimately show ?case using whole by simp
qed

lemma execute_update_keeps_map_id:
  assumes "''map_id'' \<notin> set (map assignment_column sets)"
  shows "map col_map_id (map_requests_table (snd (database_execute (Update sets conds) ps s)))
    = map col_map_id (map_requests_table s)"
proof (cases "update_rows ps sets conds (map_requests_table s)")
  case None
  then show ?thesis
    by (simp add: database_execute_def received_def Let_def)
next
  case (Some rs)
  with assms have "map col_map_id rs = map col_map_id (map_requests_table s)"
    by (rule update_rows_keeps_map_id)
  with Some show ?thesis
    by (simp add: database_execute_def received_def Let_def)
qed

lemma fetch_one_keeps_table:
  "map_requests_table (snd (database_fetch_one st ps s)) = map_requests_table s"
  by (simp add: database_fetch_one_def received_def Let_def split: option.splits list.splits)

lemma update_set_list:
  "set (map assignment_column (map (\<lambda>k. SetCoalesce k k)
     (map fst ((case player_id of UNSET \<Rightarrow> [] | Value x \<Rightarrow> [(''player_id'', PyInt x)])
               @ (case active of UNSET \<Rightarrow> [] | Value x \<Rightarrow> [(''active'', py_bool x)])))))
   \<subseteq> {''player_id'', ''active''}"
  by (cases player_id; cases active) simp_all

lemma update_keeps_map_id:
  "map col_map_id (map_requests_table (snd (update map_ids player_id active s)))
     = map col_map_id (map_requests_table s)"
proof -
  let ?fields = "(case player_id of UNSET \<Rightarrow> [] | Value x \<Rightarrow> [(''player_id'', PyInt x)])
               @ (case active of UNSET \<Rightarrow> [] | Value x \<Rightarrow> [(''active'', py_bool x)])"
  let ?sets = "map (\<lambda>k. SetCoalesce k k) (map fst ?fields)"
  let ?ps = "dict_or [(''map_id'', PyList (map PyInt map_ids))] ?fields"
  let ?run = "database_execute (Update ?sets [In ''map_id'' ''map_ids'']) ?ps s"
  have "''map_id'' \<notin> set (map assignment_column ?sets)"
    using update_set_list [of player_id active] by auto
  then have kept: "map col_map_id (map_requests_table (snd ?run))
      = map col_map_id (map_requests_table s)"
    by (rule execute_update_keeps_map_id)
  show ?thesis
  proof (cases ?run)
    case (Pair res s1)
    with kept have s1:
      "map col_map_id (map_requests_table s1) = map col_map_id (map_requests_table s)"
      by simp
    show ?thesis
    proof (cases res)
      case (Inl e)
      with Pair s1 show ?thesis by (simp add: update_def Let_def)
    next
      case (Inr affected)
      have "map_requests_table
              (snd (database_fetch_one (Select READ_PARAMS [In ''map_id'' ''map_ids''])
                      [(''map_ids'', PyList (map PyInt map_ids))] s1))
            = map_requests_table s1"
        by (rule fetch_one_keeps_table)
      with Pair Inr s1 show ?thesis
        by (auto simp: update_def Let_def split: prod.splits sum.splits)
    qed
  qed
qed

text \<open>
  Claim C5, as stated, fails: there is no call of \<^verbatim>\<open>update\<close> and no store in which
  the call changes the \<^verbatim>\<open>map_id\<close> of a row.
\<close>

theorem no_update_changes_map_id:
  "\<not> (\<exists>map_ids player_id active s.
        map col_map_id (map_requests_table (snd (update map_ids player_id active s)))
          \<noteq> map col_map_id (map_requests_table s))"
  by (simp add: update_keeps_map_id)

text \<open>
  Claim C5, amended. \<^verbatim>\<open>update\<close> takes \<^verbatim>\<open>player_id\<close> and \<^verbatim>\<open>active\<close> as the fields
  to set and nothing else: the first statement it hands the store is an UPDATE whose SET
  list names no column but \<^verbatim>\<open>player_id\<close> and \<^verbatim>\<open>active\<close>, and after the call every
  row has the \<^verbatim>\<open>map_id\<close> it had before.
\<close>

theorem update_sets_only_player_id_and_active:
  "map col_map_id (map_requests_table (snd (update map_ids player_id active s)))
     = map col_map_id (map_requests_table s)
   \<and> (\<exists>sets conds ps rest.
        statements (snd (update map_ids player_id active s))
          = statements s @ (Update sets conds, ps) # rest
        \<and> set (map assignment_column sets) \<subseteq> {''player_id'', ''active''})"
proof
  show "map col_map_id (map_requests_table (snd (update map_ids player_id active s)))
     = map col_map_id (map_requests_table s)"
    by (rule update_keeps_map_id)
next
  show "\<exists>sets conds ps rest.
        statements (snd (update map_ids player_id active s))
          = statements s @ (Update sets conds, ps) # rest
        \<and> set (map assignment_column sets) \<subseteq> {''player_id'', ''active''}"
    by (cases player_id; cases active) (simp_all add: update_fails received_def)
qed

end
